theory Spec2Isabelle
  imports Complex_Main
begin

section \<open>JavaScript values\<close>

text \<open>
  The values that flow through the counter metric are untyped at run time (\<open>unknown\<close>,
  \<open>JSONValue\<close>). A number is a double: not-a-number, one of the two infinities, or a
  finite value, which is kept here as the rational it denotes.
\<close>

datatype jsnumber = NaN | PosInfinity | NegInfinity | Finite rat

datatype jsvalue =
    JUndefined
  | JNull
  | JBool bool
  | JNumber jsnumber
  | JString string
  | JArray "jsvalue list"
  | JObject "(string \<times> jsvalue) list"

text \<open>The number value of an integer.\<close>

definition ofInt :: "int \<Rightarrow> jsvalue" where
  "ofInt n = JNumber (Finite (of_int n))"

text \<open>\<open>Number.MAX_SAFE_INTEGER\<close>, that is \<open>2^53 - 1\<close>.\<close>

definition MAX_SAFE_INTEGER :: int where
  "MAX_SAFE_INTEGER = 9007199254740991"

text \<open>
  Modelled from the spec: \<open>isUndefined\<close> and \<open>isInteger\<close> of \<open>utils.js\<close> are missing;
  they are the tests their names say, \<open>v === undefined\<close> and "is an integer" (a number
  that is finite and whole). \<open>isInteger\<close> is used as a type guard: \<open>asInteger\<close> gives
  the integer that a value is narrowed to when the guard holds.
\<close>

definition isUndefined :: "jsvalue \<Rightarrow> bool" where
  "isUndefined v = (v = JUndefined)"

fun asInteger :: "jsvalue \<Rightarrow> int option" where
  "asInteger (JNumber (Finite q)) = (if of_int \<lfloor>q\<rfloor> = q then Some \<lfloor>q\<rfloor> else None)"
| "asInteger v = None"

definition isInteger :: "jsvalue \<Rightarrow> bool" where
  "isInteger v = (asInteger v \<noteq> None)"

text \<open>The truthiness test of \<open>if (v)\<close>.\<close>

fun truthy :: "jsvalue \<Rightarrow> bool" where
  "truthy JUndefined = False"
| "truthy JNull = False"
| "truthy (JBool b) = b"
| "truthy (JNumber NaN) = False"
| "truthy (JNumber (Finite q)) = (q \<noteq> 0)"
| "truthy (JNumber PosInfinity) = True"
| "truthy (JNumber NegInfinity) = True"
| "truthy (JString s) = (s \<noteq> [])"
| "truthy (JArray xs) = True"
| "truthy (JObject kvs) = True"

section \<open>Messages and the log\<close>

text \<open>
  A template literal is kept as its pieces: literal text, and values that the source
  passes through \<open>JSON.stringify\<close>.
\<close>

datatype part = Lit string | Json jsvalue

type_synonym message = "part list"

datatype LoggingLevel = LoggingLevel_Error

record log_entry =
  tag :: string
  text_of :: message
  level :: "LoggingLevel option"

section \<open>The counter metric value (\<open>CounterMetric\<close>)\<close>

datatype ErrorType = InvalidValue

datatype MetricValidationResult =
    Success
  | Error message "ErrorType option"

text \<open>\<open>CounterMetric.validate\<close>.\<close>

definition validate :: "jsvalue \<Rightarrow> MetricValidationResult" where
  "validate v =
     (case asInteger v of
        None \<Rightarrow> Error [Lit ''Expected integer value, got '', Json v] None
      | Some n \<Rightarrow>
          if n \<le> 0
          then Error [Lit ''Expected positive value, got '', Json v] (Some InvalidValue)
          else Success)"

text \<open>
  Modelled from the spec: the base class \<open>Metric\<close> and \<open>MetricValidationError\<close> of
  \<open>metric.js\<close> are missing. Construction \<open>wrap(value)\<close> runs \<open>validate\<close>; an invalid
  value raises a typed validation error carrying the outcome (message and optional
  error kind). A valid value is kept as the wrapper's inner value; after validation it
  is a positive integer, and the cast \<open>v as number\<close> reads it.
\<close>

record MetricValidationError =
  errorMessage :: message
  errorType :: "ErrorType option"

record CounterMetric =
  inner :: int

definition validateOrThrow :: "jsvalue \<Rightarrow> MetricValidationError + int" where
  "validateOrThrow v =
     (case validate v of
        Error msg ty \<Rightarrow> Inl \<lparr>errorMessage = msg, errorType = ty\<rparr>
      | Success \<Rightarrow> Inr (the (asInteger v)))"

definition new_CounterMetric :: "jsvalue \<Rightarrow> MetricValidationError + CounterMetric" where
  "new_CounterMetric v =
     (case validateOrThrow v of
        Inl e \<Rightarrow> Inl e
      | Inr n \<Rightarrow> Inr \<lparr>inner = n\<rparr>)"

text \<open>\<open>CounterMetric.payload\<close>: the inner value, as the number the store persists.\<close>

definition payload :: "CounterMetric \<Rightarrow> jsvalue" where
  "payload c = ofInt (inner c)"

text \<open>
  Modelled from the spec: \<open>saturatingAdd\<close> of \<open>utils.js\<close> is missing;
  \<open>saturatingAdd(current, delta)\<close> returns \<open>min(current+delta, MAX)\<close>. It is only ever
  applied to two validated values, that is to positive integers, where the sum of two
  doubles compared with \<open>MAX\<close> agrees with the exact sum compared with \<open>MAX\<close>.
\<close>

definition saturatingAdd :: "int \<Rightarrow> int \<Rightarrow> int" where
  "saturatingAdd a b = min (a + b) MAX_SAFE_INTEGER"

text \<open>\<open>CounterMetric.saturatingAdd\<close>.\<close>

definition CounterMetric_saturatingAdd ::
    "CounterMetric \<Rightarrow> jsvalue \<Rightarrow> MetricValidationError + CounterMetric" where
  "CounterMetric_saturatingAdd c amount =
     (case validateOrThrow amount of
        Inl e \<Rightarrow> Inl e
      | Inr correctAmount \<Rightarrow> Inr (c\<lparr>inner := saturatingAdd (inner c) correctAmount\<rparr>))"

section \<open>Collaborators: the store and the error recorder\<close>

text \<open>The metric type; \<open>addUndispatched\<close> reads its \<open>name\<close>, which identifies it in the store.\<close>

record MetricType =
  name :: string

text \<open>
  What a recording task can raise: a validation error, a failure of the store's own
  input and output, or the \<open>TypeError\<close> of calling a method of an absent collaborator.
\<close>

datatype exn =
    ValidationError MetricValidationError
  | StoreIOFailure
  | TypeError

text \<open>
  Modelled from the spec: the metrics database (\<open>metrics/database.js\<close>) is missing.
  \<open>transform(identifier, f)\<close> is an atomic read-modify-write for the identifier's key:
  it reads the current stored value (if any), applies \<open>f\<close> and writes the payload of
  the wrapper back. A store whose persistence engine fails raises a store I/O failure;
  an exception of \<open>f\<close> passes through and nothing is written. The entries that \<open>f\<close>
  logs are returned with the result.
\<close>

record MetricsDatabase =
  entries :: "string \<rightharpoonup> jsvalue"
  failing :: bool

definition stored :: "MetricsDatabase \<Rightarrow> MetricType \<Rightarrow> jsvalue" where
  "stored db m = (case entries db (name m) of None \<Rightarrow> JUndefined | Some v \<Rightarrow> v)"

definition transform ::
    "MetricsDatabase \<Rightarrow> MetricType \<Rightarrow>
     (jsvalue \<Rightarrow> MetricValidationError + CounterMetric \<times> log_entry list) \<Rightarrow>
     exn + MetricsDatabase \<times> log_entry list" where
  "transform db m f =
     (if failing db then Inl StoreIOFailure
      else case f (stored db m) of
             Inl e \<Rightarrow> Inl (ValidationError e)
           | Inr (metric, logged) \<Rightarrow>
               Inr (db\<lparr>entries := (entries db)(name m \<mapsto> payload metric)\<rparr>, logged))"

text \<open>
  Modelled from the spec: the error recorder (\<open>error/index.js\<close>) is missing. It records
  one occurrence of a kind against a metric; the kind is the optional one the
  validation outcome carries. The counters are what \<open>testGetNumRecordedErrors\<close> reads.
\<close>

type_synonym ErrorManager = "string \<times> ErrorType option \<Rightarrow> nat"

definition record_error :: "ErrorManager \<Rightarrow> MetricType \<Rightarrow> ErrorType option \<Rightarrow> ErrorManager" where
  "record_error em m ty = em((name m, ty) := Suc (em (name m, ty)))"

section \<open>The dispatcher and the Context\<close>

text \<open>
  The only closure that \<open>counter.ts\<close> hands to the dispatcher is
  \<open>async () => this.addUndispatched(amount)\<close>; a task is that closure, kept as the
  metric and the amount it captures.
\<close>

datatype task = AddTask MetricType jsvalue

text \<open>
  Modelled from the spec: the dispatcher (\<open>dispatcher.js\<close>) is missing. It is an ordered
  queue of pending tasks, empty when created; \<open>launch(task)\<close> enqueues and returns;
  \<open>testUninitialize()\<close> cancels what is queued.
\<close>

type_synonym Dispatcher = "task list"

definition new_Dispatcher :: Dispatcher where
  "new_Dispatcher = []"

definition launch :: "Dispatcher \<Rightarrow> task \<Rightarrow> Dispatcher" where
  "launch d t = d @ [t]"

definition Dispatcher_testUninitialize :: "Dispatcher \<Rightarrow> Dispatcher" where
  "Dispatcher_testUninitialize d = []"

text \<open>
  The Context singleton. A field that the source declares without initialiser is
  \<open>undefined\<close> until it is set (\<open>None\<close>); the dispatcher is \<open>None\<close> when it is
  \<open>undefined\<close> or \<open>null\<close>. The collaborators that no claim looks into are handles.
\<close>

datatype EventsDatabase = EventsDatabase nat
datatype PingsDatabase = PingsDatabase nat
datatype DebugOptions = DebugOptions nat

type_synonym Date = nat

record Context =
  c_dispatcher :: "Dispatcher option"
  c_uploadEnabled :: "bool option"
  c_metricsDatabase :: "MetricsDatabase option"
  c_eventsDatabase :: "EventsDatabase option"
  c_pingsDatabase :: "PingsDatabase option"
  c_errorManager :: "ErrorManager option"
  c_applicationId :: "string option"
  c_debugOptions :: "DebugOptions option"
  c_initialized :: bool
  c_startTime :: Date

text \<open>The process: the Context instance and what has been logged so far.\<close>

record World =
  ctx :: Context
  console :: "log_entry list"

text \<open>The private constructor, at time \<open>now\<close>.\<close>

definition new_Context :: "Date \<Rightarrow> Context" where
  "new_Context now =
     \<lparr>c_dispatcher = None, c_uploadEnabled = None, c_metricsDatabase = None,
      c_eventsDatabase = None, c_pingsDatabase = None, c_errorManager = None,
      c_applicationId = None, c_debugOptions = None,
      c_initialized = False, c_startTime = now\<rparr>"

definition LOG_TAG_Context :: string where
  "LOG_TAG_Context = ''core.Context''"

definition LOG_TAG_Counter :: string where
  "LOG_TAG_Counter = ''core.metrics.CounterMetricType''"

definition log_line :: "string \<Rightarrow> message \<Rightarrow> LoggingLevel option \<Rightarrow> World \<Rightarrow> World" where
  "log_line t msg lvl w = w\<lparr>console := console w @ [\<lparr>tag = t, text_of = msg, level = lvl\<rparr>]\<rparr>"

text \<open>The entry a guarded getter logs for a field that is not set.\<close>

definition unset_access :: "string \<Rightarrow> World \<Rightarrow> World" where
  "unset_access field w =
     log_line LOG_TAG_Context
       [Lit (''Attempted to access Context.'' @ field @
             '' before it was set. This may cause unexpected behaviour.'')]
       (Some LoggingLevel_Error) w"

text \<open>\<open>Context.testUninitialize\<close>, at time \<open>now\<close>.\<close>

definition Context_testUninitialize :: "Date \<Rightarrow> World \<Rightarrow> World" where
  "Context_testUninitialize now w =
     (let c = ctx w;
          c1 = (case c_dispatcher c of
                  Some d \<Rightarrow> c\<lparr>c_dispatcher := Some (Dispatcher_testUninitialize d)\<rparr>
                | None \<Rightarrow> c);
          c2 = c1\<lparr>c_dispatcher := None\<rparr>;
          c3 = c2\<lparr>c_initialized := False\<rparr>;
          c4 = c3\<lparr>c_startTime := now\<rparr>
      in w\<lparr>ctx := c4\<rparr>)"

text \<open>The getters. Each returns the value read and the process after the access.\<close>

definition Context_dispatcher :: "World \<Rightarrow> Dispatcher \<times> World" where
  "Context_dispatcher w =
     (case c_dispatcher (ctx w) of
        None \<Rightarrow> (new_Dispatcher, w\<lparr>ctx := (ctx w)\<lparr>c_dispatcher := Some new_Dispatcher\<rparr>\<rparr>)
      | Some d \<Rightarrow> (d, w))"

definition Context_uploadEnabled :: "World \<Rightarrow> bool option \<times> World" where
  "Context_uploadEnabled w =
     (c_uploadEnabled (ctx w),
      if c_uploadEnabled (ctx w) = None then unset_access ''uploadEnabled'' w else w)"

definition Context_metricsDatabase :: "World \<Rightarrow> MetricsDatabase option \<times> World" where
  "Context_metricsDatabase w =
     (c_metricsDatabase (ctx w),
      if c_metricsDatabase (ctx w) = None then unset_access ''metricsDatabase'' w else w)"

definition Context_eventsDatabase :: "World \<Rightarrow> EventsDatabase option \<times> World" where
  "Context_eventsDatabase w =
     (c_eventsDatabase (ctx w),
      if c_eventsDatabase (ctx w) = None then unset_access ''eventsDatabase'' w else w)"

definition Context_pingsDatabase :: "World \<Rightarrow> PingsDatabase option \<times> World" where
  "Context_pingsDatabase w =
     (c_pingsDatabase (ctx w),
      if c_pingsDatabase (ctx w) = None then unset_access ''pingsDatabase'' w else w)"

definition Context_errorManager :: "World \<Rightarrow> ErrorManager option \<times> World" where
  "Context_errorManager w =
     (c_errorManager (ctx w),
      if c_errorManager (ctx w) = None then unset_access ''errorManager'' w else w)"

definition Context_applicationId :: "World \<Rightarrow> string option \<times> World" where
  "Context_applicationId w =
     (c_applicationId (ctx w),
      if c_applicationId (ctx w) = None then unset_access ''applicationId'' w else w)"

definition Context_debugOptions :: "World \<Rightarrow> DebugOptions option \<times> World" where
  "Context_debugOptions w =
     (c_debugOptions (ctx w),
      if c_debugOptions (ctx w) = None then unset_access ''debugOptions'' w else w)"

definition Context_initialized :: "World \<Rightarrow> bool \<times> World" where
  "Context_initialized w = (c_initialized (ctx w), w)"

definition Context_startTime :: "World \<Rightarrow> Date \<times> World" where
  "Context_startTime w = (c_startTime (ctx w), w)"

section \<open>The counter metric type (\<open>InternalCounterMetricType\<close>)\<close>

text \<open>
  Modelled from the spec: \<open>shouldRecord\<close> of the missing base class \<open>MetricType\<close> is the
  check of the global enablement flag.
\<close>

definition shouldRecord :: "MetricType \<Rightarrow> bool option \<Rightarrow> bool" where
  "shouldRecord m uploadEnabled = (uploadEnabled = Some True)"

text \<open>
  Modelled from the spec: \<open>MetricValidationError.recordError\<close> forwards to the error
  recorder of the Context: one occurrence of the error's kind against the metric.
  With no error recorder set, the call on \<open>undefined\<close> raises.
\<close>

definition recordError :: "MetricValidationError \<Rightarrow> MetricType \<Rightarrow> World \<Rightarrow> (exn + unit) \<times> World" where
  "recordError e m w =
     (let (em, w1) = Context_errorManager w
      in case em of
           None \<Rightarrow> (Inl TypeError, w1)
         | Some r \<Rightarrow>
             (Inr (), w1\<lparr>ctx := (ctx w1)\<lparr>c_errorManager := Some (record_error r m (errorType e))\<rparr>\<rparr>))"

text \<open>
  The closure \<open>transformFn\<close> that \<open>addUndispatched\<close> builds: the wrapper it returns, and
  the entries it logs. \<open>unexpected_value\<close> is the entry of its \<open>catch\<close> clause.
\<close>

definition unexpected_value :: "MetricType \<Rightarrow> jsvalue \<Rightarrow> log_entry" where
  "unexpected_value m v =
     \<lparr>tag = LOG_TAG_Counter,
      text_of = [Lit ''Unexpected value found in storage for metric '', Lit (name m),
                 Lit '': '', Json v, Lit ''. Overwriting.''],
      level = None\<rparr>"

definition transformFn ::
    "MetricType \<Rightarrow> jsvalue \<Rightarrow> jsvalue \<Rightarrow> MetricValidationError + CounterMetric \<times> log_entry list" where
  "transformFn m amount v =
     (case new_CounterMetric amount of
        Inl e \<Rightarrow> Inl e
      | Inr metric \<Rightarrow>
          if truthy v
          then (case CounterMetric_saturatingAdd metric v of
                  Inr metric' \<Rightarrow> Inr (metric', [])
                | Inl e \<Rightarrow> Inr (metric, [unexpected_value m v]))
          else Inr (metric, []))"

text \<open>The \<open>try\<close> block of \<open>addUndispatched\<close>, and its \<open>catch\<close> clause.\<close>

definition addUndispatched_try :: "MetricType \<Rightarrow> jsvalue \<Rightarrow> World \<Rightarrow> (exn + unit) \<times> World" where
  "addUndispatched_try m amount w =
     (let (db, w1) = Context_metricsDatabase w
      in case db of
           None \<Rightarrow> (Inl TypeError, w1)
         | Some d \<Rightarrow>
             (case transform d m (transformFn m amount) of
                Inl e \<Rightarrow> (Inl e, w1)
              | Inr (d', logged) \<Rightarrow>
                  (Inr (),
                   w1\<lparr>ctx := (ctx w1)\<lparr>c_metricsDatabase := Some d'\<rparr>,
                      console := console w1 @ logged\<rparr>)))"

definition addUndispatched_catch :: "MetricType \<Rightarrow> exn \<Rightarrow> World \<Rightarrow> (exn + unit) \<times> World" where
  "addUndispatched_catch m e w =
     (case e of
        ValidationError ve \<Rightarrow> recordError ve m w
      | _ \<Rightarrow> (Inr (), w))"

text \<open>\<open>InternalCounterMetricType.addUndispatched\<close>: \<open>Inl\<close> is a rejected promise.\<close>

definition addUndispatched :: "MetricType \<Rightarrow> jsvalue \<Rightarrow> World \<Rightarrow> (exn + unit) \<times> World" where
  "addUndispatched m amount w =
     (let (uploadEnabled, w1) = Context_uploadEnabled w
      in if \<not> shouldRecord m uploadEnabled then (Inr (), w1)
         else
           let amount1 = (if isUndefined amount then ofInt 1 else amount)
           in case addUndispatched_try m amount1 w1 of
                (Inl e, w2) \<Rightarrow> addUndispatched_catch m e w2
              | (Inr u, w2) \<Rightarrow> (Inr u, w2))"

text \<open>
  \<open>InternalCounterMetricType.add\<close>: the dispatcher of the Context is an object, so the
  task launched on it is in the queue the Context holds.
\<close>

definition add :: "MetricType \<Rightarrow> jsvalue \<Rightarrow> World \<Rightarrow> World" where
  "add m amount w =
     (let (d, w1) = Context_dispatcher w
      in w1\<lparr>ctx := (ctx w1)\<lparr>c_dispatcher := Some (launch d (AddTask m amount))\<rparr>\<rparr>)"

text \<open>Running a task is calling the closure it stands for.\<close>

fun run_task :: "task \<Rightarrow> World \<Rightarrow> (exn + unit) \<times> World" where
  "run_task (AddTask m amount) w = addUndispatched m amount w"

section \<open>Reading the state back\<close>

text \<open>
  Modelled from the spec: the point read \<open>getMetric\<close> that \<open>testGetValue\<close> calls, and the
  count that \<open>testGetNumRecordedErrors\<close> returns.
\<close>

definition getMetric :: "World \<Rightarrow> MetricType \<Rightarrow> jsvalue option" where
  "getMetric w m =
     (case c_metricsDatabase (ctx w) of None \<Rightarrow> None | Some db \<Rightarrow> entries db (name m))"


text \<open>The tasks a dispatcher holds, none when there is no dispatcher.\<close>

definition pending :: "World \<Rightarrow> task list" where
  "pending w = (case c_dispatcher (ctx w) of None \<Rightarrow> [] | Some d \<Rightarrow> d)"

section \<open>Example processes\<close>

definition clicks :: MetricType where
  "clicks = \<lparr>name = ''clicks''\<rparr>"

definition empty_store :: MetricsDatabase where
  "empty_store = \<lparr>entries = Map.empty, failing = False\<rparr>"

definition failing_store :: MetricsDatabase where
  "failing_store = \<lparr>entries = Map.empty, failing = True\<rparr>"

definition store_with :: "jsvalue \<Rightarrow> MetricsDatabase" where
  "store_with v = \<lparr>entries = [''clicks'' \<mapsto> v], failing = False\<rparr>"

definition no_errors :: ErrorManager where
  "no_errors = (\<lambda>k. 0)"

text \<open>A process just created, and one after start-up with the given store and flag.\<close>

definition fresh :: World where
  "fresh = \<lparr>ctx = new_Context 0, console = []\<rparr>"

definition started :: "bool \<Rightarrow> MetricsDatabase \<Rightarrow> World" where
  "started enabled db =
     \<lparr>ctx = (new_Context 0)
         \<lparr>c_uploadEnabled := Some enabled, c_metricsDatabase := Some db,
          c_errorManager := Some no_errors, c_initialized := True\<rparr>,
      console = []\<rparr>"

section \<open>Properties of validation\<close>

lemma asInteger_ofInt: "asInteger (ofInt n) = Some n"
  by (simp add: ofInt_def)

lemma asInteger_Some_iff: "asInteger v = Some n \<longleftrightarrow> v = ofInt n"
  by (cases v rule: asInteger.cases) (auto simp: ofInt_def)

lemma isInteger_iff: "isInteger v \<longleftrightarrow> (\<exists>n. v = ofInt n)"
  by (simp add: isInteger_def asInteger_Some_iff [symmetric])

lemma validate_ofInt:
  "validate (ofInt n) =
     (if n \<le> 0 then Error [Lit ''Expected positive value, got '', Json (ofInt n)] (Some InvalidValue)
      else Success)"
  by (simp add: validate_def asInteger_ofInt)

lemma validate_Success_iff: "validate v = Success \<longleftrightarrow> (\<exists>n>0. v = ofInt n)"
  by (auto simp: validate_def asInteger_Some_iff [symmetric] split: option.splits)

lemma validateOrThrow_Inr_iff: "validateOrThrow v = Inr n \<longleftrightarrow> (0 < n \<and> v = ofInt n)"
  by (auto simp: validateOrThrow_def validate_def asInteger_Some_iff [symmetric]
      split: option.splits)

lemma validateOrThrow_ofInt_pos: "0 < n \<Longrightarrow> validateOrThrow (ofInt n) = Inr n"
  by (simp add: validateOrThrow_Inr_iff)

lemma validateOrThrow_ofInt_nonpos:
  "n \<le> 0 \<Longrightarrow> validateOrThrow (ofInt n) =
     Inl \<lparr>errorMessage = [Lit ''Expected positive value, got '', Json (ofInt n)],
          errorType = Some InvalidValue\<rparr>"
  by (simp add: validateOrThrow_def validate_ofInt)

lemma validateOrThrow_not_integer:
  "\<not> isInteger v \<Longrightarrow> validateOrThrow v =
     Inl \<lparr>errorMessage = [Lit ''Expected integer value, got '', Json v], errorType = None\<rparr>"
  by (simp add: validateOrThrow_def validate_def isInteger_def)

text \<open>
  C4. \<open>validate\<close> returns an Error outcome (with no error kind attached) for every
  candidate that is not an integer, an Error outcome tagged \<open>InvalidValue\<close> for every
  integer candidate that is at most 0, and Success for every integer candidate above 0.
\<close>

theorem validate_outcomes:
  "(\<not> isInteger v \<longrightarrow>
      validate v = Error [Lit ''Expected integer value, got '', Json v] None) \<and>
   (n \<le> 0 \<longrightarrow>
      isInteger (ofInt n) \<and>
      validate (ofInt n) =
        Error [Lit ''Expected positive value, got '', Json (ofInt n)] (Some InvalidValue)) \<and>
   (0 < n \<longrightarrow> isInteger (ofInt n) \<and> validate (ofInt n) = Success)"
  by (auto simp: validate_def isInteger_def asInteger_ofInt)

theorem validate_outcomes_witness:
  "\<not> isInteger (JNumber (Finite (3 / 2))) \<and>
   validate (JNumber (Finite (3 / 2))) =
     Error [Lit ''Expected integer value, got '', Json (JNumber (Finite (3 / 2)))] None \<and>
   validate (ofInt (- 4)) =
     Error [Lit ''Expected positive value, got '', Json (ofInt (- 4))] (Some InvalidValue) \<and>
   validate (ofInt 7) = Success"
proof -
  have frac: "\<not> isInteger (JNumber (Finite (3 / 2)))"
    by code_simp
  show ?thesis
    using frac validate_outcomes [of "JNumber (Finite (3 / 2))" "- 4"]
      validate_outcomes [of JUndefined 7]
    by simp
qed

section \<open>The transform closure and the recording task\<close>

lemma new_CounterMetric_pos: "0 < n \<Longrightarrow> new_CounterMetric (ofInt n) = Inr \<lparr>inner = n\<rparr>"
  by (simp add: new_CounterMetric_def validateOrThrow_ofInt_pos)

lemma transformFn_absent:
  "0 < n \<Longrightarrow> \<not> truthy v \<Longrightarrow> transformFn m (ofInt n) v = Inr (\<lparr>inner = n\<rparr>, [])"
  by (simp add: transformFn_def new_CounterMetric_pos)

lemma truthy_ofInt: "truthy (ofInt k) \<longleftrightarrow> k \<noteq> 0"
  by (simp add: ofInt_def)

lemma transformFn_merge:
  "0 < n \<Longrightarrow> 0 < k \<Longrightarrow>
   transformFn m (ofInt n) (ofInt k) = Inr (\<lparr>inner = saturatingAdd n k\<rparr>, [])"
  by (simp add: transformFn_def new_CounterMetric_pos CounterMetric_saturatingAdd_def
      validateOrThrow_ofInt_pos truthy_ofInt)

lemma transformFn_corrupt:
  "0 < n \<Longrightarrow> truthy v \<Longrightarrow> validate v \<noteq> Success \<Longrightarrow>
   transformFn m (ofInt n) v = Inr (\<lparr>inner = n\<rparr>, [unexpected_value m v])"
  by (auto simp: transformFn_def new_CounterMetric_pos CounterMetric_saturatingAdd_def
      validateOrThrow_def split: MetricValidationResult.splits)


lemma addUndispatched_enabled:
  assumes "c_uploadEnabled (ctx w) = Some True" "amount \<noteq> JUndefined"
  shows "addUndispatched m amount w =
     (case addUndispatched_try m amount w of
        (Inl e, w2) \<Rightarrow> addUndispatched_catch m e w2
      | (Inr u, w2) \<Rightarrow> (Inr u, w2))"
  using assms
  by (simp add: addUndispatched_def Context_uploadEnabled_def shouldRecord_def isUndefined_def)

lemma addUndispatched_try_transform:
  assumes "c_metricsDatabase (ctx w) = Some db"
  shows "addUndispatched_try m amount w =
     (case transform db m (transformFn m amount) of
        Inl e \<Rightarrow> (Inl e, w)
      | Inr (d', logged) \<Rightarrow>
          (Inr (), w\<lparr>ctx := (ctx w)\<lparr>c_metricsDatabase := Some d'\<rparr>,
                     console := console w @ logged\<rparr>))"
  using assms by (simp add: addUndispatched_try_def Context_metricsDatabase_def)

lemma ofInt_neq_undefined: "ofInt n \<noteq> JUndefined"
  by (simp add: ofInt_def)

lemma addUndispatched_writes:
  assumes "c_uploadEnabled (ctx w) = Some True"
    and "c_metricsDatabase (ctx w) = Some db" "\<not> failing db"
    and "transformFn m (ofInt n) (stored db m) = Inr (metric, logged)"
  shows "addUndispatched m (ofInt n) w =
     (Inr (), w\<lparr>ctx := (ctx w)\<lparr>c_metricsDatabase :=
                    Some (db\<lparr>entries := (entries db)(name m \<mapsto> payload metric)\<rparr>)\<rparr>,
                console := console w @ logged\<rparr>)"
  using assms
  by (simp add: addUndispatched_enabled ofInt_neq_undefined addUndispatched_try_transform
      transform_def)

lemma stored_None: "entries db (name m) = None \<Longrightarrow> stored db m = JUndefined"
  by (simp add: stored_def)

lemma addUndispatched_first:
  assumes "0 < a" "c_uploadEnabled (ctx w) = Some True"
    and "c_metricsDatabase (ctx w) = Some db" "\<not> failing db" "\<not> truthy (stored db m)"
  shows "addUndispatched m (ofInt a) w =
     (Inr (), w\<lparr>ctx := (ctx w)\<lparr>c_metricsDatabase :=
                    Some (db\<lparr>entries := (entries db)(name m \<mapsto> ofInt a)\<rparr>)\<rparr>,
                console := console w @ []\<rparr>)"
  using assms addUndispatched_writes [OF assms(2-4), of m a "\<lparr>inner = a\<rparr>" "[]"]
  by (simp add: transformFn_absent payload_def)

lemma addUndispatched_second:
  assumes "0 < a" "0 < b" "c_uploadEnabled (ctx w) = Some True"
    and "c_metricsDatabase (ctx w) = Some db" "\<not> failing db" "stored db m = ofInt a"
  shows "addUndispatched m (ofInt b) w =
     (Inr (), w\<lparr>ctx := (ctx w)\<lparr>c_metricsDatabase :=
                    Some (db\<lparr>entries := (entries db)(name m \<mapsto> ofInt (saturatingAdd b a))\<rparr>)\<rparr>,
                console := console w @ []\<rparr>)"
  using assms addUndispatched_writes [OF assms(3-5), of m b "\<lparr>inner = saturatingAdd b a\<rparr>" "[]"]
  by (simp add: transformFn_merge payload_def)

lemma record_twice:
  assumes "0 < a" "0 < b" "c_uploadEnabled (ctx w) = Some True"
    and "c_metricsDatabase (ctx w) = Some db" "\<not> failing db" "entries db (name m) = None"
  shows "fst (addUndispatched m (ofInt a) w) = Inr () \<and>
         fst (addUndispatched m (ofInt b) (snd (addUndispatched m (ofInt a) w))) = Inr () \<and>
         getMetric (snd (addUndispatched m (ofInt b) (snd (addUndispatched m (ofInt a) w)))) m =
           Some (ofInt (saturatingAdd b a))"
proof -
  let ?db1 = "db\<lparr>entries := (entries db)(name m \<mapsto> ofInt a)\<rparr>"
  let ?w1 = "w\<lparr>ctx := (ctx w)\<lparr>c_metricsDatabase := Some ?db1\<rparr>, console := console w @ []\<rparr>"
  have absent: "\<not> truthy (stored db m)"
    using assms(6) by (simp add: stored_None)
  have first: "addUndispatched m (ofInt a) w = (Inr (), ?w1)"
    using addUndispatched_first [OF assms(1) assms(3-5) absent] .
  have "addUndispatched m (ofInt b) ?w1 =
     (Inr (), ?w1\<lparr>ctx := (ctx ?w1)\<lparr>c_metricsDatabase :=
                    Some (?db1\<lparr>entries := (entries ?db1)(name m \<mapsto> ofInt (saturatingAdd b a))\<rparr>)\<rparr>,
                console := console ?w1 @ []\<rparr>)"
    by (rule addUndispatched_second [OF assms(1,2)]) (use assms in \<open>simp_all add: stored_def\<close>)
  with first show ?thesis
    by (simp add: getMetric_def)
qed

text \<open>
  C1. For all positive integers \<open>a\<close> and \<open>b\<close>, in a process where recording is enabled
  and the store works and holds no value for the metric, recording \<open>a\<close> and then \<open>b\<close>
  leaves the stored value \<open>min(a+b, MAX)\<close>, and so does recording \<open>b\<close> and then \<open>a\<close>:
  the merge is commutative and saturates at the maximum. At \<open>MAX\<close> and \<open>1\<close> the value
  stays \<open>MAX\<close>.
\<close>

theorem counter_add_commutes_and_saturates:
  assumes "0 < a" and "0 < b"
    and "c_uploadEnabled (ctx w) = Some True"
    and "c_metricsDatabase (ctx w) = Some db" and "\<not> failing db"
    and "entries db (name m) = None"
  shows "getMetric (snd (addUndispatched m (ofInt b) (snd (addUndispatched m (ofInt a) w)))) m =
           Some (ofInt (min (a + b) MAX_SAFE_INTEGER)) \<and>
         getMetric (snd (addUndispatched m (ofInt a) (snd (addUndispatched m (ofInt b) w)))) m =
           Some (ofInt (min (a + b) MAX_SAFE_INTEGER))"
  using record_twice [OF assms(1,2) assms(3-6)] record_twice [OF assms(2,1) assms(3-6)]
  by (simp add: saturatingAdd_def add.commute)

theorem counter_add_commutes_and_saturates_witness:
  "getMetric (snd (addUndispatched clicks (ofInt 1)
      (snd (addUndispatched clicks (ofInt MAX_SAFE_INTEGER) (started True empty_store))))) clicks =
     Some (ofInt MAX_SAFE_INTEGER) \<and>
   getMetric (snd (addUndispatched clicks (ofInt MAX_SAFE_INTEGER)
      (snd (addUndispatched clicks (ofInt 1) (started True empty_store))))) clicks =
     Some (ofInt MAX_SAFE_INTEGER)"
proof -
  have "0 < MAX_SAFE_INTEGER" "(0::int) < 1"
    by (simp_all add: MAX_SAFE_INTEGER_def)
  moreover have "c_uploadEnabled (ctx (started True empty_store)) = Some True"
    "c_metricsDatabase (ctx (started True empty_store)) = Some empty_store"
    "\<not> failing empty_store" "entries empty_store (name clicks) = None"
    by (simp_all add: started_def empty_store_def new_Context_def)
  ultimately show ?thesis
    using counter_add_commutes_and_saturates
      [of MAX_SAFE_INTEGER 1 "started True empty_store" empty_store clicks]
    by simp
qed

text \<open>
  C10. For every stored raw value that is falsy (the number 0 among them), the transform
  closure does what it does when no value is stored: no merge is attempted, nothing is
  logged, and for a valid delta the result is a wrapper holding only the delta.
\<close>

theorem falsy_stored_value_as_absent:
  "\<not> truthy v \<Longrightarrow>
     transformFn m amount v = transformFn m amount JUndefined \<and>
     (0 < n \<longrightarrow> transformFn m (ofInt n) v = Inr (\<lparr>inner = n\<rparr>, []))"
  by (simp add: transformFn_def new_CounterMetric_pos split: sum.splits)

theorem falsy_stored_value_as_absent_witness:
  "\<not> truthy (ofInt 0) \<and>
   transformFn clicks (ofInt 5) (ofInt 0) = transformFn clicks (ofInt 5) JUndefined \<and>
   transformFn clicks (ofInt 5) (ofInt 0) = Inr (\<lparr>inner = 5\<rparr>, [])"
proof -
  have falsy: "\<not> truthy (ofInt 0)"
    by (simp add: truthy_ofInt)
  have pos: "(0::int) < 5"
    by simp
  from falsy_stored_value_as_absent [OF falsy, of clicks "ofInt 5" 5] pos falsy
  show ?thesis by blast
qed

lemma stored_Some: "entries db (name m) = Some v \<Longrightarrow> stored db m = v"
  by (simp add: stored_def)

lemma transformFn_overwrite:
  "0 < n \<Longrightarrow> validate v \<noteq> Success \<Longrightarrow>
   transformFn m (ofInt n) v = Inr (\<lparr>inner = n\<rparr>, if truthy v then [unexpected_value m v] else [])"
  by (simp add: transformFn_corrupt transformFn_absent)

text \<open>
  C3, as amended. For every stored value that fails validation as a merge input, the
  next successful recording of a delta overwrites it with exactly the delta and no error
  counter changes; a warning naming the metric is logged when the stored value is truthy,
  and nothing is logged when it is falsy.
\<close>

theorem corrupt_stored_value_overwritten:
  assumes "0 < n"
    and "c_uploadEnabled (ctx w) = Some True"
    and "c_metricsDatabase (ctx w) = Some db" and "\<not> failing db"
    and "entries db (name m) = Some v" and "validate v \<noteq> Success"
  shows "fst (addUndispatched m (ofInt n) w) = Inr () \<and>
         getMetric (snd (addUndispatched m (ofInt n) w)) m = Some (ofInt n) \<and>
         console (snd (addUndispatched m (ofInt n) w)) =
           console w @ (if truthy v then [unexpected_value m v] else []) \<and>
         c_errorManager (ctx (snd (addUndispatched m (ofInt n) w))) = c_errorManager (ctx w)"
proof -
  have "transformFn m (ofInt n) (stored db m) =
      Inr (\<lparr>inner = n\<rparr>, if truthy v then [unexpected_value m v] else [])"
    using assms(1,5,6) by (simp add: stored_Some transformFn_overwrite)
  from addUndispatched_writes [OF assms(2-4) this] show ?thesis
    by (simp add: getMetric_def payload_def)
qed

theorem corrupt_stored_value_overwritten_witness:
  "truthy (JString ''seven'') \<and>
   getMetric (snd (addUndispatched clicks (ofInt 5) (started True (store_with (JString ''seven''))))) clicks =
     Some (ofInt 5) \<and>
   console (snd (addUndispatched clicks (ofInt 5) (started True (store_with (JString ''seven''))))) =
     [unexpected_value clicks (JString ''seven'')] \<and>
   c_errorManager (ctx (snd (addUndispatched clicks (ofInt 5) (started True (store_with (JString ''seven'')))))) =
     Some no_errors"
proof -
  let ?w = "started True (store_with (JString ''seven''))"
  have "(0::int) < 5" "c_uploadEnabled (ctx ?w) = Some True"
    "c_metricsDatabase (ctx ?w) = Some (store_with (JString ''seven''))"
    "\<not> failing (store_with (JString ''seven''))"
    "entries (store_with (JString ''seven'')) (name clicks) = Some (JString ''seven'')"
    "validate (JString ''seven'') \<noteq> Success"
    by (simp_all add: started_def store_with_def new_Context_def clicks_def validate_def)
  from corrupt_stored_value_overwritten [OF this] show ?thesis
    by (simp add: started_def new_Context_def)
qed

text \<open>
  C3 as stated fails on a falsy corrupt value: with the empty string in the store, which
  is no valid merge input, recording 5 succeeds and logs no warning.
\<close>

theorem falsy_corrupt_value_no_warning:
  "validate (JString []) \<noteq> Success \<and>
   entries (store_with (JString [])) (name clicks) = Some (JString []) \<and>
   fst (addUndispatched clicks (ofInt 5) (started True (store_with (JString [])))) = Inr () \<and>
   console (snd (addUndispatched clicks (ofInt 5) (started True (store_with (JString []))))) = []"
proof -
  let ?db = "store_with (JString [])"
  let ?w = "started True ?db"
  have enabled: "c_uploadEnabled (ctx ?w) = Some True"
    and db: "c_metricsDatabase (ctx ?w) = Some ?db" and ok: "\<not> failing ?db"
    by (simp_all add: started_def store_with_def new_Context_def)
  have "transformFn clicks (ofInt 5) (stored ?db clicks) = Inr (\<lparr>inner = 5\<rparr>, [])"
    by (simp add: transformFn_absent stored_def store_with_def clicks_def)
  from addUndispatched_writes [OF enabled db ok this] show ?thesis
    by (simp add: validate_def store_with_def clicks_def started_def)
qed

section \<open>Failures: invalid amounts and store failures\<close>




lemma invalid_integer_iff:
  "isInteger v \<and> validate v \<noteq> Success \<longleftrightarrow> (\<exists>n\<le>0. v = ofInt n)"
  by (auto simp: isInteger_iff validate_ofInt split: if_splits)




lemma addUndispatched_catch_other:
  "(\<And>ve. e \<noteq> ValidationError ve) \<Longrightarrow> addUndispatched_catch m e w = (Inr (), w)"
  by (cases e) (auto simp: addUndispatched_catch_def)

text \<open>
  C6, as amended. Every failure that the store's transform raises and that is not a
  validation error is caught by the \<open>catch\<close> clause of the recording task and dropped:
  the task completes normally and leaves the process as it was (no retry, no write, no
  error counter).
\<close>

theorem store_failure_swallowed:
  assumes "c_uploadEnabled (ctx w) = Some True"
    and "c_metricsDatabase (ctx w) = Some db"
    and "transform db m (transformFn m (if isUndefined amount then ofInt 1 else amount)) = Inl e"
    and "\<forall>ve. e \<noteq> ValidationError ve"
  shows "addUndispatched m amount w = (Inr (), w)"
  using assms
  by (simp add: addUndispatched_def Context_uploadEnabled_def shouldRecord_def
      addUndispatched_try_transform addUndispatched_catch_other)

theorem store_failure_swallowed_witness:
  "transform failing_store clicks (transformFn clicks (ofInt 5)) = Inl StoreIOFailure \<and>
   addUndispatched clicks (ofInt 5) (started True failing_store) =
     (Inr (), started True failing_store)"
proof -
  let ?w = "started True failing_store"
  have "c_uploadEnabled (ctx ?w) = Some True" "c_metricsDatabase (ctx ?w) = Some failing_store"
    by (simp_all add: started_def new_Context_def)
  moreover have "transform failing_store clicks
      (transformFn clicks (if isUndefined (ofInt 5) then ofInt 1 else ofInt 5)) = Inl StoreIOFailure"
    by (simp add: transform_def failing_store_def)
  moreover have "\<forall>ve. StoreIOFailure \<noteq> ValidationError ve"
    by simp
  ultimately have "addUndispatched clicks (ofInt 5) ?w = (Inr (), ?w)"
    by (rule store_failure_swallowed)
  then show ?thesis
    by (simp add: transform_def failing_store_def)
qed

text \<open>
  C6 as stated fails: with a store whose transform raises an I/O failure, the recording
  task completes normally; the failure does not leave the task.
\<close>

theorem store_failure_does_not_propagate:
  "transform failing_store clicks (transformFn clicks (ofInt 5)) = Inl StoreIOFailure \<and>
   fst (addUndispatched clicks (ofInt 5) (started True failing_store)) = Inr ()"
  by (simp add: addUndispatched_def Context_uploadEnabled_def shouldRecord_def isUndefined_def
      ofInt_neq_undefined addUndispatched_try_transform addUndispatched_catch_def
      transform_def failing_store_def started_def new_Context_def)

section \<open>Dispatching a recording\<close>

lemma add_enqueues:
  "add m amount w = w\<lparr>ctx := (ctx w)\<lparr>c_dispatcher := Some (pending w @ [AddTask m amount])\<rparr>\<rparr>"
  by (simp add: add_def Context_dispatcher_def pending_def launch_def new_Dispatcher_def
      split: option.splits)

lemma addUndispatched_not_enabled:
  "c_uploadEnabled (ctx w) \<noteq> Some True \<Longrightarrow>
   fst (addUndispatched m amount w) = Inr () \<and> ctx (snd (addUndispatched m amount w)) = ctx w"
  by (simp add: addUndispatched_def Context_uploadEnabled_def shouldRecord_def unset_access_def
      log_line_def)

text \<open>
  C5, as amended. A public recording call checks nothing: it always enqueues the closure
  on the Context's dispatcher (created if absent) and changes nothing else. The enablement
  flag is checked when the task runs, and a task that runs while the flag is not set
  completes normally and leaves the Context, hence the stored value and every error
  counter, unchanged.
\<close>

theorem add_enqueues_then_task_checks_flag:
  "add m amount w = w\<lparr>ctx := (ctx w)\<lparr>c_dispatcher := Some (pending w @ [AddTask m amount])\<rparr>\<rparr> \<and>
   (c_uploadEnabled (ctx w) \<noteq> Some True \<longrightarrow>
      fst (run_task (AddTask m amount) w) = Inr () \<and>
      ctx (snd (run_task (AddTask m amount) w)) = ctx w)"
  by (simp add: add_enqueues addUndispatched_not_enabled)

theorem add_enqueues_then_task_checks_flag_witness:
  "c_uploadEnabled (ctx (started False (store_with (ofInt 3)))) \<noteq> Some True \<and>
   pending (add clicks (ofInt 5) (started False (store_with (ofInt 3)))) = [AddTask clicks (ofInt 5)] \<and>
   getMetric (snd (run_task (AddTask clicks (ofInt 5)) (started False (store_with (ofInt 3))))) clicks =
     Some (ofInt 3) \<and>
   c_errorManager (ctx (snd (run_task (AddTask clicks (ofInt 5)) (started False (store_with (ofInt 3)))))) =
     Some no_errors"
proof -
  let ?w = "started False (store_with (ofInt 3))"
  have off: "c_uploadEnabled (ctx ?w) \<noteq> Some True"
    by (simp add: started_def new_Context_def)
  have idle: "pending ?w = []"
    by (simp add: pending_def started_def new_Context_def)
  have before: "getMetric ?w clicks = Some (ofInt 3)" "c_errorManager (ctx ?w) = Some no_errors"
    by (simp_all add: getMetric_def started_def new_Context_def store_with_def clicks_def)
  from add_enqueues_then_task_checks_flag [of clicks "ofInt 5" ?w] off
  have "add clicks (ofInt 5) ?w =
      ?w\<lparr>ctx := (ctx ?w)\<lparr>c_dispatcher := Some (pending ?w @ [AddTask clicks (ofInt 5)])\<rparr>\<rparr>"
    and "ctx (snd (run_task (AddTask clicks (ofInt 5)) ?w)) = ctx ?w"
    by blast+
  with off idle before show ?thesis
    by (simp add: pending_def getMetric_def)
qed

text \<open>
  C5 as stated fails: with the enablement flag unset, a recording call still builds and
  enqueues the closure, and once the flag is set before the task runs, the task writes the
  value.
\<close>

theorem add_enqueues_with_flag_unset:
  "c_uploadEnabled (ctx (started False empty_store)) = Some False \<and>
   c_dispatcher (ctx (add clicks (ofInt 5) (started False empty_store))) =
     Some [AddTask clicks (ofInt 5)] \<and>
   getMetric
     (snd (run_task (AddTask clicks (ofInt 5))
        ((add clicks (ofInt 5) (started False empty_store))
           \<lparr>ctx := (ctx (add clicks (ofInt 5) (started False empty_store)))
              \<lparr>c_uploadEnabled := Some True\<rparr>\<rparr>)))
     clicks = Some (ofInt 5)"
proof -
  let ?w = "started False empty_store"
  let ?w1 = "add clicks (ofInt 5) ?w"
  let ?w2 = "?w1\<lparr>ctx := (ctx ?w1)\<lparr>c_uploadEnabled := Some True\<rparr>\<rparr>"
  have queued: "c_dispatcher (ctx ?w1) = Some [AddTask clicks (ofInt 5)]"
    by (simp add: add_enqueues pending_def started_def new_Context_def)
  have "c_uploadEnabled (ctx ?w2) = Some True" "c_metricsDatabase (ctx ?w2) = Some empty_store"
    "\<not> failing empty_store"
    by (simp_all add: add_enqueues started_def new_Context_def empty_store_def)
  moreover have "transformFn clicks (ofInt 5) (stored empty_store clicks) = Inr (\<lparr>inner = 5\<rparr>, [])"
    by (simp add: transformFn_absent stored_def empty_store_def)
  ultimately have "addUndispatched clicks (ofInt 5) ?w2 =
     (Inr (), ?w2\<lparr>ctx := (ctx ?w2)\<lparr>c_metricsDatabase :=
        Some (empty_store\<lparr>entries := (entries empty_store)(name clicks \<mapsto> payload \<lparr>inner = 5\<rparr>)\<rparr>)\<rparr>,
        console := console ?w2 @ []\<rparr>)"
    by (rule addUndispatched_writes)
  then have "getMetric (snd (run_task (AddTask clicks (ofInt 5)) ?w2)) clicks = Some (ofInt 5)"
    by (simp add: getMetric_def payload_def)
  with queued show ?thesis
    by (simp add: started_def new_Context_def)
qed

section \<open>The Context: reset and guarded access\<close>

lemma Context_testUninitialize_eq:
  "Context_testUninitialize now w =
     w\<lparr>ctx := (ctx w)\<lparr>c_dispatcher := None, c_initialized := False, c_startTime := now\<rparr>\<rparr>"
  by (simp add: Context_testUninitialize_def Let_def split: option.splits)

lemma addUndispatched_frame:
  "addUndispatched m amount
     (w\<lparr>ctx := (ctx w)\<lparr>c_dispatcher := d, c_initialized := i, c_startTime := t\<rparr>\<rparr>) =
   (fst (addUndispatched m amount w),
    (snd (addUndispatched m amount w))
      \<lparr>ctx := (ctx (snd (addUndispatched m amount w)))
         \<lparr>c_dispatcher := d, c_initialized := i, c_startTime := t\<rparr>\<rparr>)"
  by (simp add: addUndispatched_def Context_uploadEnabled_def shouldRecord_def
      addUndispatched_try_def Context_metricsDatabase_def addUndispatched_catch_def
      recordError_def Context_errorManager_def unset_access_def log_line_def
      split: option.splits sum.splits exn.splits prod.splits)

text \<open>
  C7, as amended. \<open>testUninitialize\<close> clears the Context's dispatcher reference, sets
  the initialization flag to false and the start time to the current time; every other
  field (store handle, error recorder, enablement flag among them) keeps its value. A
  recording call after it creates a dispatcher through the lazy getter, holding exactly
  the new task, and running that task does to the store and the error recorder what the
  recording does in the process before the reset.
\<close>

theorem testUninitialize_keeps_collaborators:
  "Context_testUninitialize now w =
     w\<lparr>ctx := (ctx w)\<lparr>c_dispatcher := None, c_initialized := False, c_startTime := now\<rparr>\<rparr> \<and>
   c_metricsDatabase (ctx (Context_testUninitialize now w)) = c_metricsDatabase (ctx w) \<and>
   c_errorManager (ctx (Context_testUninitialize now w)) = c_errorManager (ctx w) \<and>
   c_uploadEnabled (ctx (Context_testUninitialize now w)) = c_uploadEnabled (ctx w) \<and>
   add m amount (Context_testUninitialize now w) =
     w\<lparr>ctx := (ctx w)\<lparr>c_dispatcher := Some [AddTask m amount], c_initialized := False,
                      c_startTime := now\<rparr>\<rparr> \<and>
   fst (run_task (AddTask m amount) (add m amount (Context_testUninitialize now w))) =
     fst (addUndispatched m amount w) \<and>
   c_metricsDatabase (ctx (snd (run_task (AddTask m amount) (add m amount (Context_testUninitialize now w))))) =
     c_metricsDatabase (ctx (snd (addUndispatched m amount w))) \<and>
   c_errorManager (ctx (snd (run_task (AddTask m amount) (add m amount (Context_testUninitialize now w))))) =
     c_errorManager (ctx (snd (addUndispatched m amount w)))"
proof -
  have reset: "Context_testUninitialize now w =
      w\<lparr>ctx := (ctx w)\<lparr>c_dispatcher := None, c_initialized := False, c_startTime := now\<rparr>\<rparr>"
    by (rule Context_testUninitialize_eq)
  have again: "add m amount (Context_testUninitialize now w) =
      w\<lparr>ctx := (ctx w)\<lparr>c_dispatcher := Some [AddTask m amount], c_initialized := False,
                       c_startTime := now\<rparr>\<rparr>"
    by (simp add: reset add_enqueues pending_def)
  show ?thesis
    unfolding again run_task.simps addUndispatched_frame
    by (simp add: reset)
qed

theorem testUninitialize_keeps_collaborators_witness:
  "pending (add clicks (ofInt 1) (started True (store_with (ofInt 3)))) = [AddTask clicks (ofInt 1)] \<and>
   c_dispatcher (ctx (Context_testUninitialize 9
      (add clicks (ofInt 1) (started True (store_with (ofInt 3)))))) = None \<and>
   pending (add clicks (ofInt 5) (Context_testUninitialize 9
      (add clicks (ofInt 1) (started True (store_with (ofInt 3)))))) = [AddTask clicks (ofInt 5)] \<and>
   getMetric (snd (run_task (AddTask clicks (ofInt 5))
      (add clicks (ofInt 5) (Context_testUninitialize 9
        (add clicks (ofInt 1) (started True (store_with (ofInt 3)))))))) clicks = Some (ofInt 8)"
proof -
  let ?db = "store_with (ofInt 3)"
  let ?w = "add clicks (ofInt 1) (started True ?db)"
  note facts = testUninitialize_keeps_collaborators [of 9 ?w clicks "ofInt 5"]
  have queued: "pending ?w = [AddTask clicks (ofInt 1)]"
    by (simp add: add_enqueues pending_def started_def new_Context_def)
  have "(0::int) < 3" "(0::int) < 5" "c_uploadEnabled (ctx ?w) = Some True"
    "c_metricsDatabase (ctx ?w) = Some ?db" "\<not> failing ?db" "stored ?db clicks = ofInt 3"
    by (simp_all add: add_enqueues started_def new_Context_def store_with_def stored_def clicks_def)
  from addUndispatched_second [OF this]
  have direct: "c_metricsDatabase (ctx (snd (addUndispatched clicks (ofInt 5) ?w))) =
      Some (?db\<lparr>entries := (entries ?db)(name clicks \<mapsto> ofInt (saturatingAdd 5 3))\<rparr>)"
    by simp
  note reset = facts [THEN conjunct1]
  note again = facts [THEN conjunct2, THEN conjunct2, THEN conjunct2, THEN conjunct2, THEN conjunct1]
  note same_store = facts [THEN conjunct2, THEN conjunct2, THEN conjunct2, THEN conjunct2,
      THEN conjunct2, THEN conjunct2, THEN conjunct1]
  have "getMetric (snd (run_task (AddTask clicks (ofInt 5))
      (add clicks (ofInt 5) (Context_testUninitialize 9 ?w)))) clicks = Some (ofInt 8)"
    unfolding getMetric_def same_store direct
    by (simp add: saturatingAdd_def MAX_SAFE_INTEGER_def)
  moreover have "c_dispatcher (ctx (Context_testUninitialize 9 ?w)) = None"
    unfolding reset by simp
  moreover have "pending (add clicks (ofInt 5) (Context_testUninitialize 9 ?w)) =
      [AddTask clicks (ofInt 5)]"
    unfolding again by (simp add: pending_def)
  ultimately show ?thesis
    using queued by blast
qed

text \<open>
  C7 as stated fails: the dispatcher reference is not the only field that
  \<open>testUninitialize\<close> changes; the initialization flag and the start time change too.
\<close>

theorem testUninitialize_resets_initialized:
  "c_initialized (ctx (started True empty_store)) = True \<and>
   c_initialized (ctx (Context_testUninitialize 9 (started True empty_store))) = False \<and>
   c_startTime (ctx (started True empty_store)) = 0 \<and>
   c_startTime (ctx (Context_testUninitialize 9 (started True empty_store))) = 9"
  by (simp add: Context_testUninitialize_eq started_def new_Context_def)

text \<open>
  C8. Reading a Context field before it is set (\<open>uploadEnabled\<close>, \<open>metricsDatabase\<close>,
  \<open>eventsDatabase\<close>, \<open>pingsDatabase\<close>, \<open>errorManager\<close>, \<open>applicationId\<close> or
  \<open>debugOptions\<close>, the fields that can be unset when they are read) returns the absent
  value and logs exactly one entry, at error level, leaving the Context as it was; nothing
  is thrown. The getters of \<open>initialized\<close> and \<open>startTime\<close>, which the constructor sets,
  return the field and log nothing.
\<close>

theorem guarded_getters_log_once:
  "(c_uploadEnabled (ctx w) = None \<longrightarrow>
      Context_uploadEnabled w = (None, unset_access ''uploadEnabled'' w)) \<and>
   (c_metricsDatabase (ctx w) = None \<longrightarrow>
      Context_metricsDatabase w = (None, unset_access ''metricsDatabase'' w)) \<and>
   (c_eventsDatabase (ctx w) = None \<longrightarrow>
      Context_eventsDatabase w = (None, unset_access ''eventsDatabase'' w)) \<and>
   (c_pingsDatabase (ctx w) = None \<longrightarrow>
      Context_pingsDatabase w = (None, unset_access ''pingsDatabase'' w)) \<and>
   (c_errorManager (ctx w) = None \<longrightarrow>
      Context_errorManager w = (None, unset_access ''errorManager'' w)) \<and>
   (c_applicationId (ctx w) = None \<longrightarrow>
      Context_applicationId w = (None, unset_access ''applicationId'' w)) \<and>
   (c_debugOptions (ctx w) = None \<longrightarrow>
      Context_debugOptions w = (None, unset_access ''debugOptions'' w)) \<and>
   ctx (unset_access field w) = ctx w \<and>
   length (console (unset_access field w)) = Suc (length (console w)) \<and>
   level (last (console (unset_access field w))) = Some LoggingLevel_Error \<and>
   Context_initialized w = (c_initialized (ctx w), w) \<and>
   Context_startTime w = (c_startTime (ctx w), w)"
  by (simp add: Context_uploadEnabled_def Context_metricsDatabase_def Context_eventsDatabase_def
      Context_pingsDatabase_def Context_errorManager_def Context_applicationId_def
      Context_debugOptions_def unset_access_def log_line_def Context_initialized_def
      Context_startTime_def)

theorem guarded_getters_log_once_witness:
  "c_uploadEnabled (ctx fresh) = None \<and>
   Context_uploadEnabled fresh = (None, unset_access ''uploadEnabled'' fresh) \<and>
   Context_metricsDatabase fresh = (None, unset_access ''metricsDatabase'' fresh) \<and>
   Context_eventsDatabase fresh = (None, unset_access ''eventsDatabase'' fresh) \<and>
   Context_pingsDatabase fresh = (None, unset_access ''pingsDatabase'' fresh) \<and>
   Context_errorManager fresh = (None, unset_access ''errorManager'' fresh) \<and>
   Context_applicationId fresh = (None, unset_access ''applicationId'' fresh) \<and>
   Context_debugOptions fresh = (None, unset_access ''debugOptions'' fresh) \<and>
   length (console (unset_access ''uploadEnabled'' fresh)) = 1"
proof -
  have unset: "c_uploadEnabled (ctx fresh) = None" "c_metricsDatabase (ctx fresh) = None"
    "c_eventsDatabase (ctx fresh) = None" "c_pingsDatabase (ctx fresh) = None"
    "c_errorManager (ctx fresh) = None" "c_applicationId (ctx fresh) = None"
    "c_debugOptions (ctx fresh) = None" "console fresh = []"
    by (simp_all add: fresh_def new_Context_def)
  with guarded_getters_log_once [of fresh "''uploadEnabled''"] show ?thesis
    by simp
qed

text \<open>
  The dispatcher is not a guarded field: its getter creates it on first access, logs
  nothing, and the Context holds it from then on.
\<close>

lemma Context_dispatcher_lazy:
  "c_dispatcher (ctx w) = None \<Longrightarrow>
   Context_dispatcher w =
     (new_Dispatcher, w\<lparr>ctx := (ctx w)\<lparr>c_dispatcher := Some new_Dispatcher\<rparr>\<rparr>)"
  by (simp add: Context_dispatcher_def)

lemma Context_dispatcher_present:
  "c_dispatcher (ctx w) = Some d \<Longrightarrow> Context_dispatcher w = (d, w)"
  by (simp add: Context_dispatcher_def)

end
